theory Spec2Isabelle
  imports Main "HOL-Library.Multiset" "HOL-Library.Product_Lexorder"
begin

section \<open>The coding-todo server (src/coding\_todo.py)\<close>

text \<open>
  The module keeps one dictionary \<open>todos\<close> from ids to \<open>Todo\<close> objects and exposes
  tools that mutate it (\<open>add_todo\<close>, \<open>update_todo_status\<close>, \<open>delete_todo\<close>,
  \<open>update_todo\<close>) and prompts that read it (\<open>summarize_todos\<close>,
  \<open>suggest_next_todo\<close>). The embedding passes the module state explicitly. A tool
  returns the state after the call together with either the raised exception or the
  returned string: a Python exception does not undo assignments made before it.
\<close>

subsection \<open>Strings\<close>

text \<open>\<open>chr(10)\<close> and the apostrophe that the f-strings of the tools contain.\<close>

definition nl :: string where
  "nl = [CHR 0x0A]"

definition apos :: string where
  "apos = [CHR 0x27]"

text \<open>\<open>sep.join(parts)\<close>.\<close>

fun str_join :: "string \<Rightarrow> string list \<Rightarrow> string" where
  "str_join sep [] = []"
| "str_join sep [s] = s"
| "str_join sep (s # t # ss) = s @ sep @ str_join sep (t # ss)"

text \<open>\<open>str(n)\<close> for an integer: decimal digits, with a leading minus sign below zero.\<close>

definition digit :: "nat \<Rightarrow> char" where
  "digit d = ''0123456789'' ! d"

fun str_nat :: "nat \<Rightarrow> string" where
  "str_nat n = (if n < 10 then [digit n] else str_nat (n div 10) @ [digit (n mod 10)])"

declare str_nat.simps [simp del]

definition str_int :: "int \<Rightarrow> string" where
  "str_int i = (if i < 0 then ''-'' @ str_nat (nat (- i)) else str_nat (nat i))"

subsection \<open>Data model\<close>

text \<open>A \<open>datetime\<close> is a point on a linear time axis.\<close>

type_synonym datetime = int

text \<open>\<open>class TodoStatus(str, Enum)\<close>, its \<open>.value\<close>, and the call \<open>TodoStatus(s)\<close>
  that looks a member up by value and raises \<open>ValueError\<close> (here \<open>None\<close>) when there
  is none.\<close>

datatype TodoStatus = PENDING | IN_PROGRESS | COMPLETED

fun TodoStatus_value :: "TodoStatus \<Rightarrow> string" where
  "TodoStatus_value PENDING = ''pending''"
| "TodoStatus_value IN_PROGRESS = ''in_progress''"
| "TodoStatus_value COMPLETED = ''completed''"

definition TodoStatus_call :: "string \<Rightarrow> TodoStatus option" where
  "TodoStatus_call s =
     (if s = ''pending'' then Some PENDING
      else if s = ''in_progress'' then Some IN_PROGRESS
      else if s = ''completed'' then Some COMPLETED
      else None)"

text \<open>\<open>class Todo(BaseModel)\<close>. The field \<open>id\<close> is named \<open>todo_id\<close> here.\<close>

record Todo =
  todo_id :: string
  title :: string
  description :: string
  status :: TodoStatus
  created_at :: datetime
  updated_at :: "datetime option"
  project :: "string option"
  priority :: int
  tags :: "string list"

text \<open>
  The module state. \<open>todos\<close> is the dictionary, as the list of its items in insertion
  order. \<open>default_created_at\<close> is the default of the field \<open>created_at\<close>: the class
  body \<open>created_at: datetime = datetime.now()\<close> (line 21) is executed once, when the
  module is loaded, and the value it produced is the default from then on.
\<close>

record store =
  todos :: "(string \<times> Todo) list"
  default_created_at :: datetime

text \<open>The module starts with \<open>todos = {}\<close> (line 28).\<close>

definition empty_store :: "datetime \<Rightarrow> store" where
  "empty_store t0 = \<lparr>todos = [], default_created_at = t0\<rparr>"

text \<open>The constructor call \<open>Todo(id=..., title=..., description=..., project=...,
  priority=..., tags=...)\<close>: the fields it is not given take the class defaults.\<close>

definition Todo_init ::
  "store \<Rightarrow> string \<Rightarrow> string \<Rightarrow> string \<Rightarrow> string option \<Rightarrow> int \<Rightarrow> string list \<Rightarrow> Todo" where
  "Todo_init st i title' description' project' priority' tags' =
     \<lparr> todo_id = i, title = title', description = description', status = PENDING,
       created_at = default_created_at st, updated_at = None, project = project',
       priority = priority', tags = tags' \<rparr>"

text \<open>Dictionary operations on the item list: \<open>d[k] = v\<close> keeps the position of a key
  that is present and appends a new key; \<open>del d[k]\<close> removes the item.\<close>

fun dict_set :: "string \<Rightarrow> 'v \<Rightarrow> (string \<times> 'v) list \<Rightarrow> (string \<times> 'v) list" where
  "dict_set k v [] = [(k, v)]"
| "dict_set k v ((k', v') # kvs) =
     (if k' = k then (k', v) # kvs else (k', v') # dict_set k v kvs)"

definition dict_del :: "string \<Rightarrow> (string \<times> 'v) list \<Rightarrow> (string \<times> 'v) list" where
  "dict_del k kvs = filter (\<lambda>kv. fst kv \<noteq> k) kvs"

definition dict_values :: "(string \<times> 'v) list \<Rightarrow> 'v list" where
  "dict_values kvs = map snd kvs"

text \<open>The exceptions of the tools: each is a \<open>ValueError\<close> with a message.\<close>

datatype error = ValueError string

definition NotFound :: "string \<Rightarrow> error" where
  "NotFound i = ValueError (''Todo not found: '' @ i)"

definition InvalidStatus :: "string \<Rightarrow> error" where
  "InvalidStatus s =
     ValueError (''Invalid status: '' @ s @ ''. Must be one of: pending, in_progress, completed'')"

definition InvalidPriority :: error where
  "InvalidPriority = ValueError ''Priority must be between 1 and 5''"

subsection \<open>Tools\<close>

text \<open>
  Every tool takes \<open>now\<close>, the reading of the clock during the call, and the state.
  \<open>add_todo\<close> never reads the clock: the constructor call of lines 126 to 133 passes no
  \<open>created_at\<close>, so the field takes the class default.
\<close>

definition add_todo ::
  "datetime \<Rightarrow> store \<Rightarrow> string \<Rightarrow> string \<Rightarrow> string option \<Rightarrow> int \<Rightarrow> string list option
     \<Rightarrow> store \<times> (error + string)" where
  "add_todo now st title' description' project' priority' tags' =
     (let new_id = ''todo'' @ str_int (int (length (todos st)) + 1);
          new_todo = Todo_init st new_id title' description' project' priority'
                       (case tags' of None \<Rightarrow> [] | Some ts \<Rightarrow> ts)
      in (st\<lparr>todos := dict_set new_id new_todo (todos st)\<rparr>,
          Inr (''Added todo '' @ apos @ title' @ apos @ '' with ID: '' @ new_id)))"

definition update_todo_status ::
  "datetime \<Rightarrow> store \<Rightarrow> string \<Rightarrow> string \<Rightarrow> store \<times> (error + string)" where
  "update_todo_status now st i status' =
     (case map_of (todos st) i of
        None \<Rightarrow> (st, Inl (NotFound i))
      | Some todo \<Rightarrow>
         (case TodoStatus_call status' of
            None \<Rightarrow> (st, Inl (InvalidStatus status'))
          | Some s \<Rightarrow>
             (st\<lparr>todos := dict_set i (todo\<lparr>status := s, updated_at := Some now\<rparr>) (todos st)\<rparr>,
              Inr (''Updated todo '' @ apos @ title todo @ apos @ '' status to '' @ status'))))"

definition delete_todo :: "datetime \<Rightarrow> store \<Rightarrow> string \<Rightarrow> store \<times> (error + string)" where
  "delete_todo now st i =
     (case map_of (todos st) i of
        None \<Rightarrow> (st, Inl (NotFound i))
      | Some todo \<Rightarrow>
         (st\<lparr>todos := dict_del i (todos st)\<rparr>,
          Inr (''Deleted todo '' @ apos @ title todo @ apos @ '' (ID: '' @ i @ '')'')))"

text \<open>
  \<open>update_todo\<close> mutates the object stored under \<open>i\<close> field by field. The range check
  on the priority stands between the assignments of \<open>project\<close> and \<open>priority\<close>; when it
  raises, the assignments before it have been made.
\<close>

definition update_todo ::
  "datetime \<Rightarrow> store \<Rightarrow> string \<Rightarrow> string option \<Rightarrow> string option \<Rightarrow> string option
     \<Rightarrow> int option \<Rightarrow> string list option \<Rightarrow> store \<times> (error + string)" where
  "update_todo now st i title' description' project' priority' tags' =
     (case map_of (todos st) i of
        None \<Rightarrow> (st, Inl (NotFound i))
      | Some todo \<Rightarrow>
         (let todo1 = (case title' of None \<Rightarrow> todo | Some v \<Rightarrow> todo\<lparr>title := v\<rparr>);
              todo2 = (case description' of None \<Rightarrow> todo1 | Some v \<Rightarrow> todo1\<lparr>description := v\<rparr>);
              todo3 = (case project' of None \<Rightarrow> todo2 | Some v \<Rightarrow> todo2\<lparr>project := Some v\<rparr>)
          in if (case priority' of None \<Rightarrow> False | Some p \<Rightarrow> \<not> (1 \<le> p \<and> p \<le> 5))
             then (st\<lparr>todos := dict_set i todo3 (todos st)\<rparr>, Inl InvalidPriority)
             else
               (let todo4 = (case priority' of None \<Rightarrow> todo3 | Some p \<Rightarrow> todo3\<lparr>priority := p\<rparr>);
                    todo5 = (case tags' of None \<Rightarrow> todo4 | Some ts \<Rightarrow> todo4\<lparr>tags := ts\<rparr>);
                    todo6 = todo5\<lparr>updated_at := Some now\<rparr>
                in (st\<lparr>todos := dict_set i todo6 (todos st)\<rparr>,
                    Inr (''Updated todo '' @ apos @ title todo6 @ apos @ '' (ID: '' @ i @ '')'')))))"

subsection \<open>Prompts\<close>

text \<open>\<open>summarize_todos\<close>: \<open>if project:\<close> is false for \<open>None\<close> and for the empty
  string.\<close>

definition truthy :: "string option \<Rightarrow> bool" where
  "truthy p = (case p of None \<Rightarrow> False | Some s \<Rightarrow> s \<noteq> [])"

definition summarize_filtered :: "store \<Rightarrow> string \<Rightarrow> string option \<Rightarrow> Todo list" where
  "summarize_filtered st status' project' =
     (let filtered_todos = dict_values (todos st);
          filtered_todos = (if status' \<noteq> ''all''
                            then filter (\<lambda>t. TodoStatus_value (status t) = status') filtered_todos
                            else filtered_todos);
          filtered_todos = (if truthy project'
                            then filter (\<lambda>t. project t = project') filtered_todos
                            else filtered_todos)
      in filtered_todos)"

definition summary_line :: "Todo \<Rightarrow> string" where
  "summary_line t =
     ''- '' @ title t @ '' (Priority: '' @ str_int (priority t) @ ''): '' @ description t"

definition summarize_todos :: "store \<Rightarrow> string \<Rightarrow> string option \<Rightarrow> string" where
  "summarize_todos st status' project' =
     (let filtered_todos = summarize_filtered st status' project';
          status_text = (if status' \<noteq> ''all'' then status' @ '' '' else '''');
          project_text = (if truthy project'
                          then ''for project '' @ (case project' of None \<Rightarrow> '''' | Some s \<Rightarrow> s) @ '' ''
                          else '''')
      in ''Here are the current '' @ status_text @ ''todos '' @ project_text @ ''to summarize:''
         @ nl @ nl
         @ str_join nl (map summary_line filtered_todos)
         @ nl @ nl
         @ ''Please provide a concise summary of these todos and suggest an approach to tackle them efficiently.'')"

text \<open>\<open>suggest_next_todo\<close>: \<open>sorted\<close> is a stable sort on the key
  \<open>(-t.priority, t.created_at)\<close>, tuples compared lexicographically.\<close>

definition suggest_key :: "Todo \<Rightarrow> int \<times> datetime" where
  "suggest_key t = (- priority t, created_at t)"

definition suggest_sorted :: "store \<Rightarrow> Todo list" where
  "suggest_sorted st =
     (let pending_todos = filter (\<lambda>t. status t \<noteq> COMPLETED) (dict_values (todos st))
      in sort_key suggest_key pending_todos)"

definition suggest_line :: "Todo \<Rightarrow> string" where
  "suggest_line t =
     ''- '' @ title t @ '' (Priority: '' @ str_int (priority t) @ '', Status: ''
        @ TodoStatus_value (status t) @ ''): '' @ description t"

definition no_pending_message :: string where
  "no_pending_message =
     ''There are no pending todos. Would you like suggestions for new coding tasks to add?''"

definition suggest_next_todo :: "store \<Rightarrow> string" where
  "suggest_next_todo st =
     (let pending_todos = filter (\<lambda>t. status t \<noteq> COMPLETED) (dict_values (todos st))
      in if pending_todos = [] then no_pending_message
         else ''Here are the current pending todos in order of priority:''
              @ nl @ nl
              @ str_join nl (map suggest_line (suggest_sorted st))
              @ nl @ nl
              @ ''Based on these todos, which one should I tackle next and why? Please provide a brief recommendation.'')"

subsection \<open>Start-up\<close>

text \<open>\<open>initialize_example_todos\<close> (lines 217 to 246) stores three example todos under
  their ids before the server runs.\<close>

definition example_todos :: "store \<Rightarrow> Todo list" where
  "example_todos st =
     [Todo_init st ''todo1'' ''Implement user authentication''
        ''Add JWT-based authentication to the API endpoints''
        (Some ''Backend API'') 4 [''backend'', ''security''],
      Todo_init st ''todo2'' ''Fix CSS responsiveness''
        ''The dashboard layout breaks on mobile devices''
        (Some ''Frontend UI'') 3 [''frontend'', ''css'', ''bugfix''],
      Todo_init st ''todo3'' ''Write unit tests''
        ''Create tests for the new data processing module''
        (Some ''Backend API'') 2 [''testing'', ''quality'']]"

definition initialize_example_todos :: "store \<Rightarrow> store" where
  "initialize_example_todos st =
     foldl (\<lambda>s todo. s\<lparr>todos := dict_set (todo_id todo) todo (todos s)\<rparr>) st (example_todos st)"

subsection \<open>Vocabulary of the properties\<close>

text \<open>The order of the suggestion list: higher priority first, and among equal
  priorities the earlier creation time first.\<close>

definition higher_first :: "Todo \<Rightarrow> Todo \<Rightarrow> bool" where
  "higher_first a b =
     (priority b < priority a \<or> (priority a = priority b \<and> created_at a \<le> created_at b))"

text \<open>The tasks that \<open>summarize_todos\<close> selects: a project filter that is \<open>None\<close> or
  the empty string selects every project.\<close>

definition summary_selected :: "string \<Rightarrow> string option \<Rightarrow> Todo \<Rightarrow> bool" where
  "summary_selected statusFilter projectFilter t =
     ((statusFilter = ''all'' \<or> TodoStatus_value (status t) = statusFilter)
      \<and> (case projectFilter of None \<Rightarrow> True | Some p \<Rightarrow> p = [] \<or> project t = Some p))"

text \<open>The selection in the words of the specification: \<open>statusFilter\<close> is \<open>all\<close> or
  equals the status, and the project equals \<open>projectFilter\<close> when one is given.\<close>

definition summary_selected_spec :: "string \<Rightarrow> string option \<Rightarrow> Todo \<Rightarrow> bool" where
  "summary_selected_spec statusFilter projectFilter t =
     ((statusFilter = ''all'' \<or> TodoStatus_value (status t) = statusFilter)
      \<and> (case projectFilter of None \<Rightarrow> True | Some p \<Rightarrow> project t = Some p))"

text \<open>The range invariant of the priorities, over the tasks of a store.\<close>

definition priorities_in_range :: "store \<Rightarrow> bool" where
  "priorities_in_range st =
     list_all (\<lambda>t. 1 \<le> priority t \<and> priority t \<le> 5) (dict_values (todos st))"

text \<open>A store holding one todo per (priority, creation time, status) triple, under
  the ids \<open>add_todo\<close> would have given them.\<close>

definition store_of :: "(int \<times> datetime \<times> TodoStatus) list \<Rightarrow> store" where
  "store_of ps =
     \<lparr>todos = map (\<lambda>(n, p, c, s).
                 (''todo'' @ str_int (int n + 1),
                  (Todo_init (empty_store 0) (''todo'' @ str_int (int n + 1)) ''t'' ''d'' None p [])
                    \<lparr>created_at := c, status := s\<rparr>))
               (enumerate 0 ps),
      default_created_at = 0\<rparr>"

section \<open>Properties\<close>

subsection \<open>Auxiliary facts\<close>

lemmas tool_defs =
  add_todo_def delete_todo_def update_todo_def update_todo_status_def empty_store_def
  Todo_init_def str_int_def str_nat.simps digit_def dict_del_def dict_values_def Let_def
  InvalidPriority_def NotFound_def InvalidStatus_def TodoStatus_call_def
  example_todos_def initialize_example_todos_def store_of_def

lemma map_of_dict_set: "map_of (dict_set k v kvs) = (map_of kvs)(k \<mapsto> v)"
  by (induction kvs) (auto simp: fun_eq_iff)

lemma suggest_key_le: "suggest_key a \<le> suggest_key b \<longleftrightarrow> higher_first a b"
  by (auto simp: suggest_key_def higher_first_def less_eq_prod_def)

lemma initialize_example_todos_empty:
  "initialize_example_todos (empty_store t0) =
     \<lparr>todos = [(''todo1'', Todo_init (empty_store t0) ''todo1'' ''Implement user authentication''
                  ''Add JWT-based authentication to the API endpoints''
                  (Some ''Backend API'') 4 [''backend'', ''security'']),
               (''todo2'', Todo_init (empty_store t0) ''todo2'' ''Fix CSS responsiveness''
                  ''The dashboard layout breaks on mobile devices''
                  (Some ''Frontend UI'') 3 [''frontend'', ''css'', ''bugfix'']),
               (''todo3'', Todo_init (empty_store t0) ''todo3'' ''Write unit tests''
                  ''Create tests for the new data processing module''
                  (Some ''Backend API'') 2 [''testing'', ''quality''])],
      default_created_at = t0\<rparr>"
  by (simp add: initialize_example_todos_def example_todos_def empty_store_def Todo_init_def)

subsection \<open>Identifiers\<close>

text \<open>
  C1. Identifiers are not unique over sequences of create and delete. Starting from the
  empty store, create A (id \<open>todo1\<close>), create B (id \<open>todo2\<close>), delete \<open>todo1\<close>: the
  store holds B under \<open>todo2\<close>. The next create computes its id from the size of the
  store, 1, so it is \<open>todo2\<close> again: the call reports success and B is overwritten.
\<close>

theorem add_todo_reuses_surviving_id:
  "fst (delete_todo 3
         (fst (add_todo 2 (fst (add_todo 1 (empty_store 0) ''A'' ''a'' None 1 None))
                 ''B'' ''b'' None 1 None))
         ''todo1'')
     = \<lparr>todos = [(''todo2'', Todo_init (empty_store 0) ''todo2'' ''B'' ''b'' None 1 [])],
        default_created_at = 0\<rparr>
   \<and> add_todo 4
        \<lparr>todos = [(''todo2'', Todo_init (empty_store 0) ''todo2'' ''B'' ''b'' None 1 [])],
          default_created_at = 0\<rparr>
        ''C'' ''c'' None 1 None
     = (\<lparr>todos = [(''todo2'', Todo_init (empty_store 0) ''todo2'' ''C'' ''c'' None 1 [])],
          default_created_at = 0\<rparr>,
        Inr (''Added todo '' @ apos @ ''C'' @ apos @ '' with ID: todo2''))"
  by (simp add: tool_defs)

subsection \<open>Priorities\<close>

text \<open>\<open>update_todo_status\<close>, \<open>delete_todo\<close> and \<open>update_todo\<close> keep the stored
  priorities in 1..5, also when they raise; \<open>add_todo\<close> keeps them when the priority
  it is given is in 1..5.\<close>

lemma list_all_dict_set:
  "list_all P (map snd kvs) \<Longrightarrow> P v \<Longrightarrow> list_all P (map snd (dict_set k v kvs))"
  by (induction kvs) auto

lemma list_all_dict_del:
  "list_all P (map snd kvs) \<Longrightarrow> list_all P (map snd (dict_del k kvs))"
  by (induction kvs) (auto simp: dict_del_def)

lemma list_all_map_of:
  "list_all P (map snd kvs) \<Longrightarrow> map_of kvs k = Some v \<Longrightarrow> P v"
  by (induction kvs) (auto split: if_splits)

lemma update_todo_status_priorities:
  "priorities_in_range st \<Longrightarrow> priorities_in_range (fst (update_todo_status now st i status'))"
  by (auto simp: priorities_in_range_def update_todo_status_def dict_values_def
      split: option.splits intro!: list_all_dict_set dest: list_all_map_of)

lemma delete_todo_priorities:
  "priorities_in_range st \<Longrightarrow> priorities_in_range (fst (delete_todo now st i))"
  by (auto simp: priorities_in_range_def delete_todo_def dict_values_def
      split: option.splits intro!: list_all_dict_del)

lemma update_todo_priorities:
  "priorities_in_range st \<Longrightarrow>
   priorities_in_range (fst (update_todo now st i title' description' project' priority' tags'))"
  by (auto simp: priorities_in_range_def update_todo_def dict_values_def Let_def
      split: option.splits intro!: list_all_dict_set dest: list_all_map_of)

lemma add_todo_priorities:
  "priorities_in_range st \<Longrightarrow> 1 \<le> priority' \<Longrightarrow> priority' \<le> 5 \<Longrightarrow>
   priorities_in_range (fst (add_todo now st title' description' project' priority' tags'))"
  by (auto simp: priorities_in_range_def add_todo_def dict_values_def Let_def Todo_init_def
      intro!: list_all_dict_set)

text \<open>
  C3. \<open>add_todo\<close> stores the priority it is given without a range check: created with
  priorities 6 and 0, the two stored tasks have priorities 6 and 0.
\<close>

theorem add_todo_priority_unchecked:
  "map (priority \<circ> snd)
     (todos (fst (add_todo 2 (fst (add_todo 1 (empty_store 0) ''A'' ''a'' None 6 None))
                    ''B'' ''b'' None 0 None)))
   = [6, 0]"
  by (simp add: tool_defs)

text \<open>
  C2. \<open>update_todo\<close> with a priority out of range raises the priority error after it
  has assigned title, description and project: on the task A below, a call with new
  title, description, project, priority 6 and tags raises, and the stored task has the new
  title, description and project (its priority, tags and \<open>updated_at\<close> are the old ones).
\<close>

theorem update_todo_invalid_priority_partial:
  "update_todo 9
     \<lparr>todos = [(''todo1'', Todo_init (empty_store 0) ''todo1'' ''A'' ''a'' None 1 [])],
       default_created_at = 0\<rparr>
     ''todo1'' (Some ''X'') (Some ''y'') (Some ''P'') (Some 6) (Some [''t''])
   = (\<lparr>todos = [(''todo1'', Todo_init (empty_store 0) ''todo1'' ''X'' ''y'' (Some ''P'') 1 [])],
        default_created_at = 0\<rparr>,
      Inl InvalidPriority)"
  by (simp add: tool_defs)

subsection \<open>Timestamps\<close>

text \<open>
  C4. \<open>add_todo\<close> does not stamp the time of the call: with the class default produced
  at time 0, tasks created by calls at times 10 and 20 both have \<open>created_at\<close> 0 (their
  status is pending and their \<open>updated_at\<close> is absent).
\<close>

theorem add_todo_created_at_is_class_default:
  "map (\<lambda>kv. (created_at (snd kv), status (snd kv), updated_at (snd kv)))
     (todos (fst (add_todo 20 (fst (add_todo 10 (empty_store 0) ''A'' ''a'' None 1 None))
                    ''B'' ''b'' None 1 None)))
   = [(0, PENDING, None), (0, PENDING, None)]"
  by (simp add: tool_defs)

text \<open>
  C8. A call of \<open>update_todo\<close> that returns stamps \<open>updated_at\<close> of the addressed task
  with the time of the call, whatever arguments it was given. The call returns whenever
  the id is in the store and the priority is absent or in 1..5; with every optional
  argument absent it changes nothing but \<open>updated_at\<close>.
\<close>

theorem update_todo_stamps_updated_at:
  "(update_todo now st i title' description' project' priority' tags' = (st', Inr msg)
      \<longrightarrow> (\<exists>t. map_of (todos st') i = Some t \<and> updated_at t = Some now))
   \<and> (map_of (todos st) i = Some todo \<and> (\<forall>p. priority' = Some p \<longrightarrow> 1 \<le> p \<and> p \<le> 5)
      \<longrightarrow> (\<exists>st' msg. update_todo now st i title' description' project' priority' tags'
                        = (st', Inr msg)))
   \<and> (map_of (todos st) i = Some todo
      \<longrightarrow> update_todo now st i None None None None None
          = (st\<lparr>todos := dict_set i (todo\<lparr>updated_at := Some now\<rparr>) (todos st)\<rparr>,
             Inr (''Updated todo '' @ apos @ title todo @ apos @ '' (ID: '' @ i @ '')'')))"
  by (auto simp: update_todo_def Let_def map_of_dict_set split: option.splits if_splits)

theorem update_todo_stamps_updated_at_witness:
  "map_of (todos (initialize_example_todos (empty_store 0))) ''todo2''
     = Some (Todo_init (empty_store 0) ''todo2'' ''Fix CSS responsiveness''
               ''The dashboard layout breaks on mobile devices''
               (Some ''Frontend UI'') 3 [''frontend'', ''css'', ''bugfix''])
   \<and> (\<exists>st' msg. update_todo 42 (initialize_example_todos (empty_store 0)) ''todo2''
          None None None None None = (st', Inr msg)
        \<and> map_of (todos st') ''todo2''
            = Some ((Todo_init (empty_store 0) ''todo2'' ''Fix CSS responsiveness''
               ''The dashboard layout breaks on mobile devices''
               (Some ''Frontend UI'') 3 [''frontend'', ''css'', ''bugfix''])\<lparr>updated_at := Some 42\<rparr>))"
  using update_todo_stamps_updated_at
    [of 42 "initialize_example_todos (empty_store 0)" "''todo2''" None None None None None _ _
        "Todo_init (empty_store 0) ''todo2'' ''Fix CSS responsiveness''
               ''The dashboard layout breaks on mobile devices''
               (Some ''Frontend UI'') 3 [''frontend'', ''css'', ''bugfix'']"]
  by (simp add: initialize_example_todos_empty map_of_dict_set)

subsection \<open>Status updates\<close>

text \<open>
  C5. On an id that is in the store, \<open>update_todo_status\<close> with a string that is none
  of \<open>pending\<close>, \<open>in_progress\<close>, \<open>completed\<close> raises the invalid-status error and
  leaves the store as it was: the status keeps its value and \<open>updated_at\<close> is not
  stamped.
\<close>

theorem update_todo_status_invalid_unchanged:
  assumes "map_of (todos st) i = Some todo"
    and "status' \<notin> {''pending'', ''in_progress'', ''completed''}"
  shows "update_todo_status now st i status' = (st, Inl (InvalidStatus status'))"
  using assms by (simp add: update_todo_status_def TodoStatus_call_def)

theorem update_todo_status_invalid_unchanged_witness:
  "map_of (todos (initialize_example_todos (empty_store 0))) ''todo1''
     = Some (Todo_init (empty_store 0) ''todo1'' ''Implement user authentication''
                  ''Add JWT-based authentication to the API endpoints''
                  (Some ''Backend API'') 4 [''backend'', ''security''])
   \<and> ''done'' \<notin> {''pending'', ''in_progress'', ''completed''}
   \<and> update_todo_status 7 (initialize_example_todos (empty_store 0)) ''todo1'' ''done''
       = (initialize_example_todos (empty_store 0), Inl (InvalidStatus ''done''))"
proof -
  have h1: "map_of (todos (initialize_example_todos (empty_store 0))) ''todo1''
     = Some (Todo_init (empty_store 0) ''todo1'' ''Implement user authentication''
                  ''Add JWT-based authentication to the API endpoints''
                  (Some ''Backend API'') 4 [''backend'', ''security''])"
    by (simp add: initialize_example_todos_empty)
  have h2: "''done'' \<notin> {''pending'', ''in_progress'', ''completed''}"
    by simp
  show ?thesis
    using h1 h2 update_todo_status_invalid_unchanged [OF h1 h2, of 7] by simp
qed

subsection \<open>The suggestion list\<close>

lemma suggest_sorted_mset:
  "mset (suggest_sorted st) = mset (filter (\<lambda>t. status t \<noteq> COMPLETED) (dict_values (todos st)))"
  by (simp add: suggest_sorted_def)

lemma suggest_sorted_sorted: "sorted_wrt higher_first (suggest_sorted st)"
proof -
  have "sorted (map suggest_key (suggest_sorted st))"
    unfolding suggest_sorted_def Let_def by (rule sorted_sort_key)
  then show ?thesis
    by (simp add: sorted_map suggest_key_le)
qed

lemma suggest_sorted_Nil:
  "suggest_sorted st = [] \<longleftrightarrow> filter (\<lambda>t. status t \<noteq> COMPLETED) (dict_values (todos st)) = []"
  using suggest_sorted_mset [of st] by (metis mset_zero_iff)

lemma suggest_sorted_example:
  "t1 < t2 \<Longrightarrow>
   map (\<lambda>t. (priority t, created_at t))
     (suggest_sorted (store_of [(2, t1, PENDING), (5, t2, PENDING), (5, t1, PENDING)]))
   = [(5, t1), (5, t2), (2, t1)]"
  by (simp add: suggest_sorted_def store_of_def dict_values_def Todo_init_def suggest_key_def
      less_eq_prod_def)

text \<open>
  C6. The list that \<open>suggest_next_todo\<close> renders holds exactly the tasks whose status
  is not completed, ordered by priority descending and, among equal priorities, by
  \<open>created_at\<close> ascending; the prompt has one entry per task of that list, in that
  order. Tasks with (priority, created\_at) = (2,t1), (5,t2), (5,t1), where t1 < t2, come
  out as (5,t1), (5,t2), (2,t1).
\<close>

theorem suggest_next_todo_order:
  "mset (suggest_sorted st) = mset (filter (\<lambda>t. status t \<noteq> COMPLETED) (dict_values (todos st)))
   \<and> sorted_wrt higher_first (suggest_sorted st)
   \<and> suggest_next_todo st =
       (if suggest_sorted st = [] then no_pending_message
        else ''Here are the current pending todos in order of priority:''
              @ nl @ nl
              @ str_join nl (map suggest_line (suggest_sorted st))
              @ nl @ nl
              @ ''Based on these todos, which one should I tackle next and why? Please provide a brief recommendation.'')
   \<and> (t1 < t2 \<longrightarrow>
        map (\<lambda>t. (priority t, created_at t))
          (suggest_sorted (store_of [(2, t1, PENDING), (5, t2, PENDING), (5, t1, PENDING)]))
        = [(5, t1), (5, t2), (2, t1)])"
  using suggest_sorted_mset [of st] suggest_sorted_sorted [of st] suggest_sorted_Nil [of st]
    suggest_sorted_example [of t1 t2]
  by (simp add: suggest_next_todo_def)

theorem suggest_next_todo_order_witness:
  "(1::int) < 2
   \<and> map (\<lambda>t. (priority t, created_at t))
       (suggest_sorted (store_of [(2, 1, PENDING), (5, 2, PENDING), (5, 1, PENDING)]))
     = [(5, 1), (5, 2), (2, 1)]
   \<and> sorted_wrt higher_first
       (suggest_sorted (store_of [(2, 1, PENDING), (5, 2, IN_PROGRESS), (4, 1, COMPLETED), (5, 1, PENDING)]))
   \<and> suggest_next_todo (store_of [(2, 1, PENDING), (5, 2, IN_PROGRESS), (4, 1, COMPLETED), (5, 1, PENDING)])
     = ''Here are the current pending todos in order of priority:'' @ nl @ nl
       @ ''- t (Priority: 5, Status: pending): d'' @ nl
       @ ''- t (Priority: 5, Status: in_progress): d'' @ nl
       @ ''- t (Priority: 2, Status: pending): d'' @ nl @ nl
       @ ''Based on these todos, which one should I tackle next and why? Please provide a brief recommendation.''"
  using suggest_next_todo_order
          [of "store_of [(2, 1, PENDING), (5, 2, IN_PROGRESS), (4, 1, COMPLETED), (5, 1, PENDING)]" 1 2]
  by (simp add: suggest_sorted_def store_of_def dict_values_def Todo_init_def suggest_key_def
      less_eq_prod_def suggest_line_def str_int_def str_nat.simps digit_def)

text \<open>
  C9. When every task of the store is completed (in particular when the store is empty),
  \<open>suggest_next_todo\<close> returns the fixed message that asks whether to suggest new
  tasks, and not the list prompt with no entries.
\<close>

theorem suggest_next_todo_all_completed:
  assumes "\<forall>t \<in> set (dict_values (todos st)). status t = COMPLETED"
  shows "suggest_next_todo st = no_pending_message
    \<and> suggest_next_todo st \<noteq>
        ''Here are the current pending todos in order of priority:''
          @ nl @ nl @ str_join nl [] @ nl @ nl
          @ ''Based on these todos, which one should I tackle next and why? Please provide a brief recommendation.''"
  using assms by (simp add: suggest_next_todo_def filter_empty_conv no_pending_message_def)

theorem suggest_next_todo_all_completed_witness:
  "map status (dict_values (todos (store_of [(3, 1, COMPLETED), (5, 2, COMPLETED)])))
     = [COMPLETED, COMPLETED]
   \<and> suggest_next_todo (store_of [(3, 1, COMPLETED), (5, 2, COMPLETED)]) = no_pending_message
   \<and> dict_values (todos (empty_store 0)) = []
   \<and> suggest_next_todo (empty_store 0) = no_pending_message"
proof -
  have h1: "\<forall>t \<in> set (dict_values (todos (store_of [(3, 1, COMPLETED), (5, 2, COMPLETED)]))).
              status t = COMPLETED"
    by (simp add: store_of_def dict_values_def)
  have h2: "\<forall>t \<in> set (dict_values (todos (empty_store 0))). status t = COMPLETED"
    by (simp add: empty_store_def dict_values_def)
  show ?thesis
    using suggest_next_todo_all_completed [OF h1] suggest_next_todo_all_completed [OF h2]
    by (simp add: store_of_def dict_values_def empty_store_def)
qed

subsection \<open>The filtered summary\<close>

text \<open>
  C10. \<open>summarize_todos\<close> with the empty string as project filter returns what it
  returns without a project filter.
\<close>

theorem summarize_todos_empty_project:
  "summarize_todos st statusFilter (Some '''') = summarize_todos st statusFilter None"
  by (simp add: summarize_todos_def summarize_filtered_def truthy_def)

lemma summarize_filtered_eq:
  "summarize_filtered st statusFilter projectFilter
     = filter (summary_selected statusFilter projectFilter) (dict_values (todos st))"
  by (cases projectFilter)
     (auto simp: summarize_filtered_def summary_selected_def truthy_def Let_def intro: filter_cong)

text \<open>
  C7, as amended. \<open>summarize_todos\<close> emits one entry for exactly the tasks where the
  status filter is \<open>all\<close> or equals the status, restricted to the tasks whose project
  equals the project filter when that filter is given and is not the empty string, in
  the insertion order of the store.
\<close>

theorem summarize_todos_selection:
  "summarize_filtered st statusFilter projectFilter
     = filter (summary_selected statusFilter projectFilter) (dict_values (todos st))
   \<and> summarize_todos st statusFilter projectFilter
     = ''Here are the current ''
       @ (if statusFilter \<noteq> ''all'' then statusFilter @ '' '' else [])
       @ ''todos ''
       @ (case projectFilter of None \<Rightarrow> [] | Some p \<Rightarrow> if p = [] then [] else ''for project '' @ p @ '' '')
       @ ''to summarize:'' @ nl @ nl
       @ str_join nl (map summary_line
           (filter (summary_selected statusFilter projectFilter) (dict_values (todos st))))
       @ nl @ nl
       @ ''Please provide a concise summary of these todos and suggest an approach to tackle them efficiently.''"
  by (cases projectFilter) (simp_all add: summarize_filtered_eq summarize_todos_def truthy_def)

theorem summarize_todos_selection_witness:
  "map todo_id (summarize_filtered (store_of [(1, 1, PENDING), (1, 2, COMPLETED), (1, 3, PENDING)])
      ''pending'' None) = [''todo1'', ''todo3'']
   \<and> map todo_id (summarize_filtered (initialize_example_todos (empty_store 0))
      ''all'' (Some ''Backend API'')) = [''todo1'', ''todo3'']
   \<and> map todo_id (summarize_filtered (initialize_example_todos (empty_store 0))
      ''pending'' (Some '''')) = [''todo1'', ''todo2'', ''todo3'']"
  using summarize_todos_selection [of "store_of [(1, 1, PENDING), (1, 2, COMPLETED), (1, 3, PENDING)]" "''pending''" None]
    summarize_todos_selection [of "initialize_example_todos (empty_store 0)" "''all''" "Some ''Backend API''"]
    summarize_todos_selection [of "initialize_example_todos (empty_store 0)" "''pending''" "Some ''''"]
  by (simp add: initialize_example_todos_empty summary_selected_def store_of_def dict_values_def
      Todo_init_def str_int_def str_nat.simps digit_def)

text \<open>
  C7, as stated, fails for the empty string as project filter: on the three example
  todos, all pending and each with a project, the status filter \<open>pending\<close> with the
  empty project filter selects all three, and no task has the empty string as its project.
\<close>

theorem summarize_todos_project_given_counterexample:
  "\<not> (summarize_filtered (initialize_example_todos (empty_store 0)) ''pending'' (Some '''')
        = filter (summary_selected_spec ''pending'' (Some ''''))
            (dict_values (todos (initialize_example_todos (empty_store 0)))))"
  by (simp add: initialize_example_todos_empty summarize_filtered_def summary_selected_spec_def
      truthy_def dict_values_def Todo_init_def)

end
